theory Spec2Isabelle
  imports Main "HOL-Library.Word"
begin

section \<open>Data model of the block-template fetcher (main.go)\<close>

text \<open>
  The program is a single Go file. Its own code is the two structs \<open>KaspaApi\<close> and
  \<open>BridgeConfig\<close>, the functions \<open>NewKaspaAPI\<close>, \<open>fetchKaspaAccountFromPrivateKey\<close>,
  \<open>GetBlockTemplate\<close> and \<open>main\<close>; \<open>main\<close> holds the startup sequence, the polling
  goroutine and the status loop. Everything else (the kaspad RPC client, the wallet
  library, Redis, godotenv, the JSON codec, the file system) is an external collaborator
  and enters the model as a field of the record \<open>world\<close>.

  Go errors are values of the datatype \<open>error\<close>; a Go result pair \<open>(v, err)\<close> is a
  sum \<open>error + 'a\<close> with \<open>Inl\<close> the error; a call that returns only an error is an
  \<open>error option\<close> with \<open>None\<close> for \<open>nil\<close>.
\<close>

datatype numerr = ErrSyntax | ErrRange

datatype error =
    Err string
  | NumError string string numerr
  | Wrap error string

text \<open>\<open>time.Duration\<close> is a signed 64-bit count of nanoseconds.\<close>

type_synonym Duration = "64 word"

definition Second :: Duration where
  "Second = 1000000000"

datatype RPCClient = RPCClient string

record KaspaApi =
  address :: string
  blockWaitTime :: Duration
  kaspad :: RPCClient
  connected :: bool

record BridgeConfig =
  RPCServer :: "string list"
  Network :: string
  BlockWaitTimeSec :: string
  RedisAddress :: string
  RedisChannel :: string

text \<open>The address prefixes of kaspad's \<open>util\<close> package.\<close>

datatype Bech32Prefix =
    Bech32PrefixUnknown
  | Bech32PrefixKaspa
  | Bech32PrefixKaspaDev
  | Bech32PrefixKaspaTest
  | Bech32PrefixKaspaSim

text \<open>
  The external collaborators. The template type \<open>'t\<close> stands for
  \<open>*appmessage.GetBlockTemplateResponseMessage\<close>, which the program never inspects.
  The answers of the node and of the bus may differ from one loop iteration to the next,
  so \<open>kaspadGetBlockTemplate\<close> and \<open>redisPublish\<close> take the number of the iteration of
  the polling loop in which they are called. An address object of the \<open>util\<close> package
  is an opaque string here.
\<close>

record 't world =
  godotenvLoad :: "string \<Rightarrow> error option"
  osGetenv :: "string \<Rightarrow> string"
  osOpen :: "string \<Rightarrow> error + string"
  jsonDecode :: "string \<Rightarrow> error + BridgeConfig"
  hexDecodeString :: "string \<Rightarrow> error + string"
  PublicKeyFromPrivateKey :: "string \<Rightarrow> error + string"
  NewAddressPublicKey :: "string \<Rightarrow> Bech32Prefix \<Rightarrow> error + string"
  AddressString :: "string \<Rightarrow> string"
  DecodeAddress :: "string \<Rightarrow> Bech32Prefix \<Rightarrow> error + string"
  EncodeAddress :: "string \<Rightarrow> string"
  rpcclientNewRPCClient :: "string \<Rightarrow> error + RPCClient"
  redisPing :: "string \<Rightarrow> error option"
  kaspadGetBlockTemplate :: "nat \<Rightarrow> RPCClient \<Rightarrow> string \<Rightarrow> string \<Rightarrow> error + 't"
  jsonMarshal :: "'t \<Rightarrow> error + string"
  redisPublish :: "nat \<Rightarrow> string \<Rightarrow> string \<Rightarrow> error option"

text \<open>
  What the process does towards the outside, in order. The arguments of a formatted
  print are kept as values, not rendered.
\<close>

datatype arg = ArgErr error | ArgStr string | ArgConfig BridgeConfig

datatype 't event =
    LogFatalf string "arg list"
  | LogPrintf string "arg list"
  | LogPrintln "arg list"
  | FmtPrintf string "arg list"
  | FmtPrintln "arg list"
  | DialRPC string
  | PingRedis string
  | CallGetBlockTemplate string string
  | StoreTemplate 't
  | CallMarshal 't
  | CallPublish string string
  | Sleep Duration

section \<open>strconv.Atoi\<close>

text \<open>
  \<open>strconv.Atoi\<close> belongs to the Go standard library. By its documentation it is
  \<open>ParseInt(s, 10, 0)\<close> converted to \<open>int\<close> (64 bits here): an optional sign, then
  one or more decimal digits; any other byte is a syntax error, a value outside the
  64-bit range a range error. \<open>ParseUint\<close> reads the digits from the left and stops at
  the first byte that is not a digit or at the first overflow of 64 unsigned bits.
\<close>

definition isDigit :: "char \<Rightarrow> bool" where
  "isDigit c = (48 \<le> (of_char c :: nat) \<and> (of_char c :: nat) \<le> 57)"

definition digitVal :: "char \<Rightarrow> nat" where
  "digitVal c = of_char c - 48"

definition maxUint64 :: nat where
  "maxUint64 = 18446744073709551615"

fun parseDigits :: "nat \<Rightarrow> string \<Rightarrow> numerr + nat" where
  "parseDigits n [] = Inr n"
| "parseDigits n (c # cs) =
     (if \<not> isDigit c then Inl ErrSyntax
      else if n \<ge> maxUint64 div 10 + 1 then Inl ErrRange
      else if n * 10 + digitVal c > maxUint64 then Inl ErrRange
      else parseDigits (n * 10 + digitVal c) cs)"

definition ParseUint :: "string \<Rightarrow> numerr + nat" where
  "ParseUint s = (if s = [] then Inl ErrSyntax else parseDigits 0 s)"

definition ParseInt :: "string \<Rightarrow> numerr + int" where
  "ParseInt s =
     (case s of
        [] \<Rightarrow> Inl ErrSyntax
      | c # cs \<Rightarrow>
          (let neg = (c = CHR ''-'');
               ds = (if c = CHR ''+'' \<or> c = CHR ''-'' then cs else s)
           in case ParseUint ds of
                Inl e \<Rightarrow> Inl e
              | Inr un \<Rightarrow>
                  if \<not> neg \<and> un \<ge> 2 ^ 63 then Inl ErrRange
                  else if neg \<and> un > 2 ^ 63 then Inl ErrRange
                  else Inr (if neg then - int un else int un)))"

definition Atoi :: "string \<Rightarrow> error + int" where
  "Atoi s =
     (case ParseInt s of
        Inl e \<Rightarrow> Inl (NumError ''Atoi'' s e)
      | Inr n \<Rightarrow> Inr n)"

section \<open>The functions of main.go\<close>

text \<open>\<open>NewKaspaAPI\<close> (lines 38--50).\<close>

definition NewKaspaAPI :: "'t world \<Rightarrow> string \<Rightarrow> Duration \<Rightarrow> error + KaspaApi" where
  "NewKaspaAPI w addr bwt =
     (case rpcclientNewRPCClient w addr of
        Inl err \<Rightarrow> Inl err
      | Inr client \<Rightarrow>
          Inr \<lparr>address = addr, blockWaitTime = bwt, kaspad = client, connected = True\<rparr>)"

text \<open>\<open>fetchKaspaAccountFromPrivateKey\<close> (lines 52--79).\<close>

definition fetchKaspaAccountFromPrivateKey :: "'t world \<Rightarrow> string \<Rightarrow> string \<Rightarrow> error + string" where
  "fetchKaspaAccountFromPrivateKey w network privateKeyHex =
     (let prefix =
            (if network = ''testnet-10'' \<or> network = ''testnet-11''
             then Bech32PrefixKaspaTest else Bech32PrefixKaspa)
      in case hexDecodeString w privateKeyHex of
           Inl err \<Rightarrow> Inl err
         | Inr privateKeyBytes \<Rightarrow>
       (case PublicKeyFromPrivateKey w privateKeyBytes of
           Inl err \<Rightarrow> Inl err
         | Inr publicKeybytes \<Rightarrow>
       (case NewAddressPublicKey w publicKeybytes prefix of
           Inl err \<Rightarrow> Inl err
         | Inr addressPubKey \<Rightarrow>
       (case DecodeAddress w (AddressString w addressPubKey) prefix of
           Inl err \<Rightarrow> Inl err
         | Inr a \<Rightarrow> Inr (EncodeAddress w a)))))"

text \<open>
  \<open>GetBlockTemplate\<close> (lines 81--89), called in iteration \<open>i\<close> of the polling loop.
\<close>

definition GetBlockTemplate :: "'t world \<Rightarrow> nat \<Rightarrow> KaspaApi \<Rightarrow> string \<Rightarrow> error + 't" where
  "GetBlockTemplate w i ks miningAddr =
     (case kaspadGetBlockTemplate w i (kaspad ks) miningAddr ''Katpool'' of
        Inl err \<Rightarrow> Inl (Wrap err ''failed fetching new block template from kaspa'')
      | Inr template \<Rightarrow> Inr template)"

section \<open>Startup (main, lines 91--151)\<close>

text \<open>
  Startup ends in one of three ways: the process exits with a status (\<open>log.Fatalf\<close>
  calls \<open>os.Exit(1)\<close>; a \<open>return\<close> from \<open>main\<close> ends the process with status 0), the
  Go runtime panics (index out of range; the runtime prints the panic and exits with
  status 2), or the two loops are started. In the last case the outcome carries what the
  loops use: the API object, the configuration and the payout address.
\<close>

datatype runtime_error = IndexOutOfRange nat nat

datatype outcome =
    Exit nat
  | Panic runtime_error
  | Serving KaspaApi BridgeConfig string

definition exit_status :: "outcome \<Rightarrow> nat option" where
  "exit_status out =
     (case out of Exit n \<Rightarrow> Some n | Panic e \<Rightarrow> Some 2 | Serving ks cfg a \<Rightarrow> None)"

text \<open>
  \<open>index0\<close> is the Go expression \<open>xs[0]\<close> on a slice: a run-time panic when the slice
  is empty.
\<close>

definition index0 :: "'a list \<Rightarrow> runtime_error + 'a" where
  "index0 xs = (case xs of [] \<Rightarrow> Inl (IndexOutOfRange 0 0) | x # _ \<Rightarrow> Inr x)"

text \<open>
  \<open>main\<close> up to the start of the goroutine. The result is the list of events in the
  order in which they happen and the outcome. The deferred \<open>file.Close()\<close> and
  \<open>rdb.Close()\<close> have no part in what follows and are left out.
\<close>

definition main :: "'t world \<Rightarrow> 't event list \<times> outcome" where
  "main w =
     (case godotenvLoad w ''../.env'' of
        Some err \<Rightarrow> ([LogFatalf ''Error loading .env file: %v'' [ArgErr err]], Exit 1)
      | None \<Rightarrow>
     (let privateKey = osGetenv w ''TREASURY_PRIVATE_KEY'' in
      case osOpen w ''./config.json'' of
        Inl err \<Rightarrow> ([FmtPrintf (''Error opening file: %v'' @ [CHR 0x0A]) [ArgErr err]], Exit 0)
      | Inr file \<Rightarrow>
     (case jsonDecode w file of
        Inl err \<Rightarrow> ([FmtPrintf (''Error decoding JSON: %v'' @ [CHR 0x0A]) [ArgErr err]], Exit 0)
      | Inr config \<Rightarrow>
     (let t1 = [LogPrintln [ArgStr ''Config : %v'', ArgConfig config]] in
      case fetchKaspaAccountFromPrivateKey w (Network config) privateKey of
        Inl err \<Rightarrow>
          (t1 @ [LogFatalf ''failed to retrieve address from private key : %v'' [ArgErr err]],
           Exit 1)
      | Inr addr \<Rightarrow>
     (let t2 = t1 @ [LogPrintln [ArgStr ''Address : '', ArgStr addr]] in
      case Atoi (BlockWaitTimeSec config) of
        Inl err \<Rightarrow>
          (t2 @ [FmtPrintln [ArgStr ''Error: Invalid BlockWaitTimeSec : '', ArgErr err]], Exit 0)
      | Inr num \<Rightarrow>
     (case index0 (RPCServer config) of
        Inl p \<Rightarrow> (t2, Panic p)
      | Inr server \<Rightarrow>
     (let t3 = t2 @ [DialRPC server] in
      case NewKaspaAPI w server (word_of_int num * Second) of
        Inl err \<Rightarrow> (t3 @ [LogFatalf ''failed to initialize Kaspa API: %v'' [ArgErr err]], Exit 1)
      | Inr ksApi \<Rightarrow>
     (let t4 = t3 @ [PingRedis (RedisAddress config)] in
      case redisPing w (RedisAddress config) of
        Some err \<Rightarrow> (t4 @ [LogFatalf ''could not connect to Redis: %v'' [ArgErr err]], Exit 1)
      | None \<Rightarrow> (t4, Serving ksApi config addr)))))))))"

section \<open>The two loops (main, lines 150--223)\<close>

text \<open>
  The state shared by the goroutine and the status loop is the variable
  \<open>currentTemplate\<close> (\<open>nil\<close> is \<open>None\<close>); \<open>trace\<close> collects the events of both loops.
  The assignment between \<open>templateMutex.Lock()\<close> and \<open>templateMutex.Unlock()\<close> is one
  atomic step of the model.
\<close>

record 't proc =
  currentTemplate :: "'t option"
  trace :: "'t event list"

definition emit :: "'t event \<Rightarrow> 't proc \<Rightarrow> 't proc" where
  "emit e s = s\<lparr>trace := trace s @ [e]\<rparr>"

definition init_proc :: "'t proc" where
  "init_proc = \<lparr>currentTemplate = None, trace = []\<rparr>"

text \<open>
  One iteration of the \<open>for\<close> loop of the goroutine (lines 155--184), the \<open>i\<close>-th since
  the loop started. The source's \<open>continue\<close> ends the iteration where it stands.
\<close>

definition poll_body :: "'t world \<Rightarrow> KaspaApi \<Rightarrow> BridgeConfig \<Rightarrow> string \<Rightarrow> nat \<Rightarrow> 't proc \<Rightarrow> 't proc" where
  "poll_body w ksApi config addr i s =
     (let s1 = emit (CallGetBlockTemplate addr ''Katpool'') s in
      case GetBlockTemplate w i ksApi addr of
        Inl err \<Rightarrow>
          emit (Sleep (blockWaitTime ksApi))
            (emit (LogPrintf ''error fetching block template: %v'' [ArgErr err]) s1)
      | Inr template \<Rightarrow>
     (let s2 = emit (StoreTemplate template) (s1\<lparr>currentTemplate := Some template\<rparr>);
          s3 = emit (CallMarshal template) s2
      in case jsonMarshal w template of
        Inl err \<Rightarrow> emit (LogPrintf ''error serializing template to JSON: %v'' [ArgErr err]) s3
      | Inr templateJSON \<Rightarrow>
     (let s4 = emit (CallPublish (RedisChannel config) templateJSON) s3;
          s5 = (case redisPublish w i (RedisChannel config) templateJSON of
                  Some err \<Rightarrow> emit (LogPrintf ''error publishing to Redis: %v'' [ArgErr err]) s4
                | None \<Rightarrow>
                    emit (LogPrintf ''template published to Redis channel %s''
                            [ArgStr (RedisChannel config)]) s4)
      in emit (Sleep (blockWaitTime ksApi)) s5)))"

text \<open>
  The loop has no exit. \<open>poll_loop w ksApi config addr i n\<close> runs \<open>n\<close> consecutive
  iterations of it, the first of them being iteration number \<open>i\<close>; the goroutine
  started by \<open>main\<close> is \<open>poll_loop w ksApi config addr 0 n\<close> for growing \<open>n\<close>.
\<close>

definition poll_loop :: "'t world \<Rightarrow> KaspaApi \<Rightarrow> BridgeConfig \<Rightarrow> string \<Rightarrow> nat \<Rightarrow> nat \<Rightarrow> 't proc \<Rightarrow> 't proc" where
  "poll_loop w ksApi config addr i n s = fold (poll_body w ksApi config addr) [i..<i + n] s"

text \<open>
  The states the goroutine passes through in iteration \<open>i\<close>, one after each statement
  it executes, in order. The first is the state in which the call of \<open>GetBlockTemplate\<close>
  (line 156) has returned and nothing else has happened; then come, in the error branch,
  the log line and the sleep, and otherwise the store of lines 164--166, the call of the
  encoder, and either its log line or the call of \<open>Publish\<close>, the log line and the sleep.
  The last of these states is the one \<open>poll_body\<close> returns.
\<close>

definition poll_points :: "'t world \<Rightarrow> KaspaApi \<Rightarrow> BridgeConfig \<Rightarrow> string \<Rightarrow> nat \<Rightarrow> 't proc \<Rightarrow> 't proc list" where
  "poll_points w ksApi config addr i s =
     (let s1 = emit (CallGetBlockTemplate addr ''Katpool'') s in
      case GetBlockTemplate w i ksApi addr of
        Inl err \<Rightarrow>
          (let s2 = emit (LogPrintf ''error fetching block template: %v'' [ArgErr err]) s1;
               s3 = emit (Sleep (blockWaitTime ksApi)) s2
           in [s1, s2, s3])
      | Inr template \<Rightarrow>
     (let s2 = emit (StoreTemplate template) (s1\<lparr>currentTemplate := Some template\<rparr>);
          s3 = emit (CallMarshal template) s2
      in case jsonMarshal w template of
        Inl err \<Rightarrow>
          [s1, s2, s3,
           emit (LogPrintf ''error serializing template to JSON: %v'' [ArgErr err]) s3]
      | Inr templateJSON \<Rightarrow>
     (let s4 = emit (CallPublish (RedisChannel config) templateJSON) s3;
          s5 = (case redisPublish w i (RedisChannel config) templateJSON of
                  Some err \<Rightarrow> emit (LogPrintf ''error publishing to Redis: %v'' [ArgErr err]) s4
                | None \<Rightarrow>
                    emit (LogPrintf ''template published to Redis channel %s''
                            [ArgStr (RedisChannel config)]) s4);
          s6 = emit (Sleep (blockWaitTime ksApi)) s5
      in [s1, s2, s3, s4, s5, s6])))"

text \<open>
  One iteration of the status loop (lines 188--223). The formatted print of the
  populated branch is commented out in the source, so that branch is empty.
\<close>

definition status_tick :: "'t proc \<Rightarrow> 't proc" where
  "status_tick s =
     (let s1 = emit (Sleep (5 * Second)) s in
      if currentTemplate s1 \<noteq> None then s1
      else emit (FmtPrintln [ArgStr ''No block template fetched yet.'']) s1)"

section \<open>Notions used to state the properties\<close>

text \<open>The events added to the trace on the way from state \<open>s\<close> to state \<open>s'\<close>.\<close>

definition new_events :: "'t proc \<Rightarrow> 't proc \<Rightarrow> 't event list" where
  "new_events s s' = drop (length (trace s)) (trace s')"

text \<open>
  The templates returned by the successful \<open>GetBlockTemplate\<close> calls of iterations
  \<open>0, ..., n - 1\<close>, in the order of the calls, and the last of them.
\<close>

definition fetched :: "'t world \<Rightarrow> KaspaApi \<Rightarrow> string \<Rightarrow> nat \<Rightarrow> 't list" where
  "fetched w ks a n =
     concat (map (\<lambda>i. case GetBlockTemplate w i ks a of Inl e \<Rightarrow> [] | Inr t \<Rightarrow> [t]) [0..<n])"

definition last_fetched :: "'t world \<Rightarrow> KaspaApi \<Rightarrow> string \<Rightarrow> nat \<Rightarrow> 't option" where
  "last_fetched w ks a n = (case rev (fetched w ks a n) of [] \<Rightarrow> None | t # ts \<Rightarrow> Some t)"

text \<open>Kinds of events.\<close>

fun is_sleep :: "'t event \<Rightarrow> bool" where
  "is_sleep (Sleep d) = True"
| "is_sleep e = False"

fun is_store :: "'t event \<Rightarrow> bool" where
  "is_store (StoreTemplate t) = True"
| "is_store e = False"

fun is_publishing :: "'t event \<Rightarrow> bool" where
  "is_publishing (CallMarshal t) = True"
| "is_publishing (CallPublish ch p) = True"
| "is_publishing e = False"

fun is_fetch :: "'t event \<Rightarrow> bool" where
  "is_fetch (CallGetBlockTemplate a x) = True"
| "is_fetch e = False"

fun is_network :: "'t event \<Rightarrow> bool" where
  "is_network (DialRPC a) = True"
| "is_network (PingRedis a) = True"
| "is_network e = False"

fun is_error_message :: "'t event \<Rightarrow> bool" where
  "is_error_message (LogFatalf f xs) = True"
| "is_error_message (FmtPrintf f xs) = True"
| "is_error_message (FmtPrintln xs) = True"
| "is_error_message e = False"

fun is_output :: "'t event \<Rightarrow> bool" where
  "is_output (LogFatalf f xs) = True"
| "is_output (LogPrintf f xs) = True"
| "is_output (LogPrintln xs) = True"
| "is_output (FmtPrintf f xs) = True"
| "is_output (FmtPrintln xs) = True"
| "is_output e = False"

text \<open>What a bus that records every \<open>Publish\<close> call has seen: channel and payload.\<close>

fun published :: "'t event list \<Rightarrow> (string \<times> string) list" where
  "published [] = []"
| "published (CallPublish ch p # es) = (ch, p) # published es"
| "published (e # es) = published es"

text \<open>
  A string is numeric when it is an optional sign followed by at least one decimal digit.
\<close>

definition numeric :: "string \<Rightarrow> bool" where
  "numeric s =
     (let ds = (case s of [] \<Rightarrow> [] | c # cs \<Rightarrow> if c = CHR ''+'' \<or> c = CHR ''-'' then cs else s)
      in ds \<noteq> [] \<and> list_all isDigit ds)"

text \<open>
  The world in which the address library uses the prefix \<open>P\<close> whatever prefix it is
  handed.
\<close>

definition with_prefix :: "Bech32Prefix \<Rightarrow> 't world \<Rightarrow> 't world" where
  "with_prefix P w =
     w\<lparr>NewAddressPublicKey := (\<lambda>pk p. NewAddressPublicKey w pk P),
       DecodeAddress := (\<lambda>x p. DecodeAddress w x P)\<rparr>"

section \<open>A scripted world\<close>

text \<open>
  A concrete configuration and concrete collaborators, on which the definitions are run.
  Templates are strings. The node is down in iterations 0 and 1, answers \<open>T1\<close> in
  iteration 2 and \<open>T2\<close> afterwards; the bus refuses the message of iteration 2.
\<close>

definition demo_config :: BridgeConfig where
  "demo_config =
     \<lparr>RPCServer = [''127.0.0.1:16110''], Network = ''mainnet'', BlockWaitTimeSec = ''5'',
      RedisAddress = ''127.0.0.1:6379'', RedisChannel = ''templates''\<rparr>"

definition demo_world :: "string world" where
  "demo_world =
     \<lparr>godotenvLoad = (\<lambda>p. None),
      osGetenv = (\<lambda>k. ''0a0b''),
      osOpen = (\<lambda>p. Inr ''config''),
      jsonDecode = (\<lambda>f. Inr demo_config),
      hexDecodeString = (\<lambda>x. Inr x),
      PublicKeyFromPrivateKey = (\<lambda>k. Inr (''pub'' @ k)),
      NewAddressPublicKey =
        (\<lambda>pk p. Inr ((if p = Bech32PrefixKaspaTest then ''kaspatest:'' else ''kaspa:'') @ pk)),
      AddressString = (\<lambda>x. x),
      DecodeAddress = (\<lambda>x p. Inr x),
      EncodeAddress = (\<lambda>x. x),
      rpcclientNewRPCClient = (\<lambda>x. Inr (RPCClient x)),
      redisPing = (\<lambda>x. None),
      kaspadGetBlockTemplate =
        (\<lambda>i c a x. if i < 2 then Inl (Err ''node down'')
                   else Inr (if i = 2 then ''T1'' else ''T2'')),
      jsonMarshal = (\<lambda>t. Inr (''json:'' @ t)),
      redisPublish = (\<lambda>i ch p. if i = 2 then Some (Err ''bus down'') else None)\<rparr>"

definition demo_ks :: KaspaApi where
  "demo_ks =
     \<lparr>address = ''127.0.0.1:16110'', blockWaitTime = 5 * Second,
      kaspad = RPCClient ''127.0.0.1:16110'', connected = True\<rparr>"

text \<open>The same world with a node that answers \<open>T1\<close>, then \<open>T2\<close>, from the start.\<close>

definition two_templates_world :: "string world" where
  "two_templates_world =
     demo_world\<lparr>kaspadGetBlockTemplate :=
       (\<lambda>i c a x. Inr (if i = 0 then ''T1'' else ''T2''))\<rparr>"

text \<open>The same world with a node that answers \<open>T1\<close> and is down from then on.\<close>

definition then_down_world :: "string world" where
  "then_down_world =
     demo_world\<lparr>kaspadGetBlockTemplate :=
       (\<lambda>i c a x. if i = 0 then Inr ''T1'' else Inl (Err ''node down''))\<rparr>"

text \<open>The same world with a JSON encoder that fails.\<close>

definition marshal_error_world :: "string world" where
  "marshal_error_world = demo_world\<lparr>jsonMarshal := (\<lambda>t. Inl (Err ''unsupported value''))\<rparr>"

text \<open>The same world without a \<open>config.json\<close>.\<close>

definition no_config_world :: "string world" where
  "no_config_world = demo_world\<lparr>osOpen := (\<lambda>p. Inl (Err ''no such file or directory''))\<rparr>"

text \<open>The same world with a \<open>config.json\<close> that is not JSON.\<close>

definition bad_json_world :: "string world" where
  "bad_json_world = demo_world\<lparr>jsonDecode := (\<lambda>f. Inl (Err ''invalid character''))\<rparr>"

text \<open>The same world with other values of \<open>block_wait_time_seconds\<close> and \<open>node\<close>.\<close>

definition wait_world :: "string \<Rightarrow> string world" where
  "wait_world v = demo_world\<lparr>jsonDecode := (\<lambda>f. Inr (demo_config\<lparr>BlockWaitTimeSec := v\<rparr>))\<rparr>"

definition no_node_world :: "string \<Rightarrow> string world" where
  "no_node_world v =
     demo_world\<lparr>jsonDecode := (\<lambda>f. Inr (demo_config\<lparr>RPCServer := [], BlockWaitTimeSec := v\<rparr>))\<rparr>"

section \<open>The polling loop\<close>

lemma poll_loop_0: "poll_loop w ks cfg a i 0 s = s"
  by (simp add: poll_loop_def)

lemma poll_loop_Suc:
  "poll_loop w ks cfg a i (Suc n) s = poll_body w ks cfg a (i + n) (poll_loop w ks cfg a i n s)"
  by (simp add: poll_loop_def)

lemma poll_body_cache:
  "currentTemplate (poll_body w ks cfg a i s) =
     (case GetBlockTemplate w i ks a of Inl e \<Rightarrow> currentTemplate s | Inr t \<Rightarrow> Some t)"
  by (simp add: poll_body_def emit_def Let_def split: sum.splits option.splits)

text \<open>The events of one iteration, for each of its four ways through the body.\<close>

lemma poll_body_trace:
  "trace (poll_body w ks cfg a i s) =
     trace s @ CallGetBlockTemplate a ''Katpool'' #
       (case GetBlockTemplate w i ks a of
          Inl err \<Rightarrow>
            [LogPrintf ''error fetching block template: %v'' [ArgErr err],
             Sleep (blockWaitTime ks)]
        | Inr t \<Rightarrow>
            StoreTemplate t # CallMarshal t #
              (case jsonMarshal w t of
                 Inl err \<Rightarrow> [LogPrintf ''error serializing template to JSON: %v'' [ArgErr err]]
               | Inr js \<Rightarrow>
                   [CallPublish (RedisChannel cfg) js,
                    (case redisPublish w i (RedisChannel cfg) js of
                       Some err \<Rightarrow> LogPrintf ''error publishing to Redis: %v'' [ArgErr err]
                     | None \<Rightarrow>
                         LogPrintf ''template published to Redis channel %s''
                           [ArgStr (RedisChannel cfg)]),
                    Sleep (blockWaitTime ks)]))"
  by (simp add: poll_body_def emit_def Let_def split: sum.splits option.splits)

lemma new_events_append: "trace s' = trace s @ es \<Longrightarrow> new_events s s' = es"
  by (simp add: new_events_def)

lemma new_events_poll_body:
  "new_events s (poll_body w ks cfg a i s) =
     CallGetBlockTemplate a ''Katpool'' #
       (case GetBlockTemplate w i ks a of
          Inl err \<Rightarrow>
            [LogPrintf ''error fetching block template: %v'' [ArgErr err],
             Sleep (blockWaitTime ks)]
        | Inr t \<Rightarrow>
            StoreTemplate t # CallMarshal t #
              (case jsonMarshal w t of
                 Inl err \<Rightarrow> [LogPrintf ''error serializing template to JSON: %v'' [ArgErr err]]
               | Inr js \<Rightarrow>
                   [CallPublish (RedisChannel cfg) js,
                    (case redisPublish w i (RedisChannel cfg) js of
                       Some err \<Rightarrow> LogPrintf ''error publishing to Redis: %v'' [ArgErr err]
                     | None \<Rightarrow>
                         LogPrintf ''template published to Redis channel %s''
                           [ArgStr (RedisChannel cfg)]),
                    Sleep (blockWaitTime ks)]))"
  by (rule new_events_append) (simp add: poll_body_trace)

lemma trace_poll_loop_prefix:
  "\<exists>es. trace (poll_loop w ks cfg a i n s) = trace s @ es"
proof (induction n)
  case 0
  show ?case by (simp add: poll_loop_0)
next
  case (Suc n)
  then obtain es where "trace (poll_loop w ks cfg a i n s) = trace s @ es" by blast
  then show ?case by (simp add: poll_loop_Suc poll_body_trace)
qed

lemma trace_poll_loop_Suc:
  "trace (poll_loop w ks cfg a i (Suc n) s) =
     trace s @ new_events s (poll_loop w ks cfg a i n s) @
       new_events (poll_loop w ks cfg a i n s) (poll_loop w ks cfg a i (Suc n) s)"
proof -
  obtain es where es: "trace (poll_loop w ks cfg a i n s) = trace s @ es"
    using trace_poll_loop_prefix by blast
  obtain fs where fs:
    "trace (poll_loop w ks cfg a i (Suc n) s) = trace (poll_loop w ks cfg a i n s) @ fs"
    by (simp add: poll_loop_Suc poll_body_trace)
  show ?thesis
    by (simp add: new_events_append [OF es] new_events_append [OF fs] es fs)
qed

lemma fetched_Suc:
  "fetched w ks a (Suc n) =
     fetched w ks a n @ (case GetBlockTemplate w n ks a of Inl e \<Rightarrow> [] | Inr t \<Rightarrow> [t])"
  by (simp add: fetched_def)

lemma last_fetched_0: "last_fetched w ks a 0 = None"
  by (simp add: last_fetched_def fetched_def)

lemma last_fetched_Suc:
  "last_fetched w ks a (Suc n) =
     (case GetBlockTemplate w n ks a of Inl e \<Rightarrow> last_fetched w ks a n | Inr t \<Rightarrow> Some t)"
  by (simp add: last_fetched_def fetched_Suc split: sum.splits)

lemma poll_loop_cache:
  "currentTemplate (poll_loop w ks cfg a 0 n s) =
     (case last_fetched w ks a n of None \<Rightarrow> currentTemplate s | Some t \<Rightarrow> Some t)"
proof (induction n)
  case 0
  show ?case by (simp add: poll_loop_0 last_fetched_0)
next
  case (Suc n)
  show ?case
    by (simp add: poll_loop_Suc poll_body_cache last_fetched_Suc Suc split: sum.splits)
qed

text \<open>What the scripted node answers.\<close>

lemma demo_get:
  "GetBlockTemplate demo_world i demo_ks a =
     (if i < 2
      then Inl (Wrap (Err ''node down'') ''failed fetching new block template from kaspa'')
      else Inr (if i = 2 then ''T1'' else ''T2''))"
  by (simp add: GetBlockTemplate_def demo_world_def)

text \<open>The points of an iteration: where they end, what the cache and the trace are.\<close>

lemma poll_points_last: "last (poll_points w ks cfg a i s) = poll_body w ks cfg a i s"
  by (simp add: poll_points_def poll_body_def Let_def split: sum.splits option.splits)

lemma poll_points_length: "0 < length (poll_points w ks cfg a i s)"
  by (simp add: poll_points_def Let_def split: sum.splits option.splits)

lemma poll_points_cache:
  assumes "k < length (poll_points w ks cfg a i s)"
  shows "currentTemplate (poll_points w ks cfg a i s ! k) =
       (if k = 0 then currentTemplate s
        else case GetBlockTemplate w i ks a of Inl e \<Rightarrow> currentTemplate s | Inr t \<Rightarrow> Some t)"
  using assms
  by (auto simp add: poll_points_def emit_def Let_def nth_Cons' less_Suc_eq
      split: sum.splits option.splits)

lemma poll_points_trace:
  assumes "k < length (poll_points w ks cfg a i s)"
  shows "trace (poll_points w ks cfg a i s ! k) =
       trace s @ take (Suc k) (new_events s (poll_body w ks cfg a i s))"
  using assms
  by (auto simp add: poll_points_def new_events_poll_body emit_def Let_def nth_Cons'
      less_Suc_eq split: sum.splits option.splits)

lemma poll_loop_cache_empty:
  "currentTemplate s = None \<Longrightarrow>
     currentTemplate (poll_loop w ks cfg a 0 n s) = last_fetched w ks a n"
  by (simp add: poll_loop_cache split: option.splits)

text \<open>
  C1 as stated fails at one point of the loop: when a call of \<open>GetBlockTemplate\<close> has
  returned a template (line 156) and the store of lines 164--166 has not yet run. With a
  node that answers \<open>T1\<close> and then \<open>T2\<close>, at that point of the first iteration the
  cache is empty although a fetch has succeeded, and at that point of the second
  iteration the cache holds \<open>T1\<close> although the latest successful call returned \<open>T2\<close>.
\<close>

theorem cache_lags_between_fetch_and_store:
  "GetBlockTemplate two_templates_world 0 demo_ks ''kaspa:pub0a0b'' = Inr ''T1''
   \<and> currentTemplate
        (poll_points two_templates_world demo_ks demo_config ''kaspa:pub0a0b'' 0 init_proc ! 0)
       = None
   \<and> GetBlockTemplate two_templates_world 1 demo_ks ''kaspa:pub0a0b'' = Inr ''T2''
   \<and> currentTemplate
        (poll_points two_templates_world demo_ks demo_config ''kaspa:pub0a0b'' 1
           (poll_loop two_templates_world demo_ks demo_config ''kaspa:pub0a0b'' 0 1 init_proc)
         ! 0)
       = Some ''T1''"
proof -
  have g0: "GetBlockTemplate two_templates_world 0 demo_ks ''kaspa:pub0a0b'' = Inr ''T1''"
    by (simp add: GetBlockTemplate_def two_templates_world_def)
  have g1: "GetBlockTemplate two_templates_world 1 demo_ks ''kaspa:pub0a0b'' = Inr ''T2''"
    by (simp add: GetBlockTemplate_def two_templates_world_def)
  have c: "currentTemplate
      (poll_loop two_templates_world demo_ks demo_config ''kaspa:pub0a0b'' 0 (Suc 0) init_proc)
      = Some ''T1''"
    by (simp add: poll_loop_Suc poll_loop_0 poll_body_cache g0)
  have p0: "currentTemplate
      (poll_points two_templates_world demo_ks demo_config ''kaspa:pub0a0b'' 0 init_proc ! 0)
      = None"
    by (simp add: poll_points_cache [OF poll_points_length] init_proc_def)
  have p1: "currentTemplate
      (poll_points two_templates_world demo_ks demo_config ''kaspa:pub0a0b'' 1
         (poll_loop two_templates_world demo_ks demo_config ''kaspa:pub0a0b'' 0 1 init_proc) ! 0)
      = Some ''T1''"
    by (simp add: poll_points_cache [OF poll_points_length] c)
  from g0 g1 p0 p1 show ?thesis by simp
qed

text \<open>
  C1, amended. The cache starts empty (line 151). Take the \<open>k\<close>-th of the states the
  loop passes through in its iteration \<open>i\<close>, that is the state in which the first
  \<open>k + 1\<close> events of the iteration have happened. At the first of them, where the call
  of \<open>GetBlockTemplate\<close> has returned and the store has not yet run, the cache holds
  the template of the latest successful call of the iterations before \<open>i\<close> (empty when
  there is none); at every later one, through the encoding, the publishing and the sleep,
  it holds the template of the latest successful call up to and including iteration
  \<open>i\<close>. Throughout an iteration whose fetch fails the cache is what it was when the
  iteration began. The last state of the iteration is the first of the next, and there
  the cache is the template of the latest successful call, or empty.
\<close>

theorem cache_at_every_point:
  assumes "currentTemplate s = None"
    and "k < length (poll_points w ks cfg a i (poll_loop w ks cfg a 0 i s))"
  shows "currentTemplate (poll_points w ks cfg a i (poll_loop w ks cfg a 0 i s) ! k)
       = (if k = 0 then last_fetched w ks a i else last_fetched w ks a (Suc i))
     \<and> (\<forall>e. GetBlockTemplate w i ks a = Inl e \<longrightarrow>
          currentTemplate (poll_points w ks cfg a i (poll_loop w ks cfg a 0 i s) ! k)
            = currentTemplate (poll_loop w ks cfg a 0 i s))
     \<and> trace (poll_points w ks cfg a i (poll_loop w ks cfg a 0 i s) ! k)
       = trace (poll_loop w ks cfg a 0 i s) @
           take (Suc k)
             (new_events (poll_loop w ks cfg a 0 i s) (poll_loop w ks cfg a 0 (Suc i) s))
     \<and> last (poll_points w ks cfg a i (poll_loop w ks cfg a 0 i s))
       = poll_loop w ks cfg a 0 (Suc i) s
     \<and> currentTemplate (poll_loop w ks cfg a 0 i s) = last_fetched w ks a i
     \<and> currentTemplate (poll_loop w ks cfg a 0 (Suc i) s) = last_fetched w ks a (Suc i)"
proof -
  note c = poll_loop_cache_empty [OF assms(1), of w ks cfg a]
  have "currentTemplate (poll_points w ks cfg a i (poll_loop w ks cfg a 0 i s) ! k)
       = (if k = 0 then last_fetched w ks a i else last_fetched w ks a (Suc i))"
    by (simp add: poll_points_cache [OF assms(2)] c last_fetched_Suc split: sum.splits)
  moreover have "\<forall>e. GetBlockTemplate w i ks a = Inl e \<longrightarrow>
      currentTemplate (poll_points w ks cfg a i (poll_loop w ks cfg a 0 i s) ! k)
        = currentTemplate (poll_loop w ks cfg a 0 i s)"
    by (auto simp add: poll_points_cache [OF assms(2)])
  moreover have "trace (poll_points w ks cfg a i (poll_loop w ks cfg a 0 i s) ! k)
       = trace (poll_loop w ks cfg a 0 i s) @
           take (Suc k)
             (new_events (poll_loop w ks cfg a 0 i s) (poll_loop w ks cfg a 0 (Suc i) s))"
    by (simp add: poll_points_trace [OF assms(2)] poll_loop_Suc)
  moreover have "last (poll_points w ks cfg a i (poll_loop w ks cfg a 0 i s))
       = poll_loop w ks cfg a 0 (Suc i) s"
    by (simp add: poll_points_last poll_loop_Suc)
  ultimately show ?thesis
    using c by blast
qed

lemma demo_two_failures:
  "poll_loop demo_world demo_ks demo_config a 0 2 init_proc =
     \<lparr>currentTemplate = None,
      trace =
        [CallGetBlockTemplate a ''Katpool'',
         LogPrintf ''error fetching block template: %v''
           [ArgErr (Wrap (Err ''node down'') ''failed fetching new block template from kaspa'')],
         Sleep (blockWaitTime demo_ks),
         CallGetBlockTemplate a ''Katpool'',
         LogPrintf ''error fetching block template: %v''
           [ArgErr (Wrap (Err ''node down'') ''failed fetching new block template from kaspa'')],
         Sleep (blockWaitTime demo_ks)]\<rparr>"
proof -
  have two: "(2::nat) = Suc (Suc 0)" by simp
  show ?thesis
    unfolding two
    by (simp add: poll_loop_Suc poll_loop_0 poll_body_def demo_get emit_def init_proc_def Let_def)
qed

theorem cache_at_every_point_witness:
  "currentTemplate (init_proc :: string proc) = None
   \<and> map currentTemplate
        (poll_points demo_world demo_ks demo_config ''kaspa:pub0a0b'' 2
          (poll_loop demo_world demo_ks demo_config ''kaspa:pub0a0b'' 0 2 init_proc))
       = [None, Some ''T1'', Some ''T1'', Some ''T1'', Some ''T1'', Some ''T1'']
   \<and> last_fetched demo_world demo_ks ''kaspa:pub0a0b'' 2 = None
   \<and> last_fetched demo_world demo_ks ''kaspa:pub0a0b'' 3 = Some ''T1''
   \<and> currentTemplate
        (poll_points demo_world demo_ks demo_config ''kaspa:pub0a0b'' 2
          (poll_loop demo_world demo_ks demo_config ''kaspa:pub0a0b'' 0 2 init_proc) ! 0)
       = None
   \<and> currentTemplate
        (poll_points demo_world demo_ks demo_config ''kaspa:pub0a0b'' 2
          (poll_loop demo_world demo_ks demo_config ''kaspa:pub0a0b'' 0 2 init_proc) ! 3)
       = Some ''T1''
   \<and> currentTemplate
        (poll_loop demo_world demo_ks demo_config ''kaspa:pub0a0b'' 0 3 init_proc)
       = Some ''T1''
   \<and> GetBlockTemplate then_down_world 1 demo_ks ''kaspa:pub0a0b''
       = Inl (Wrap (Err ''node down'') ''failed fetching new block template from kaspa'')
   \<and> currentTemplate
        (poll_loop then_down_world demo_ks demo_config ''kaspa:pub0a0b'' 0 1 init_proc)
       = Some ''T1''
   \<and> currentTemplate
        (poll_points then_down_world demo_ks demo_config ''kaspa:pub0a0b'' 1
          (poll_loop then_down_world demo_ks demo_config ''kaspa:pub0a0b'' 0 1 init_proc) ! 2)
       = Some ''T1''"
proof -
  have h: "currentTemplate (init_proc :: string proc) = None"
    by (simp add: init_proc_def)
  have d0: "GetBlockTemplate then_down_world 0 demo_ks ''kaspa:pub0a0b'' = Inr ''T1''"
    by (simp add: GetBlockTemplate_def then_down_world_def)
  have d1: "GetBlockTemplate then_down_world 1 demo_ks ''kaspa:pub0a0b''
      = Inl (Wrap (Err ''node down'') ''failed fetching new block template from kaspa'')"
    by (simp add: GetBlockTemplate_def then_down_world_def)
  have dc: "currentTemplate
      (poll_loop then_down_world demo_ks demo_config ''kaspa:pub0a0b'' 0 1 init_proc)
      = Some ''T1''"
    using poll_loop_Suc [of then_down_world demo_ks demo_config "''kaspa:pub0a0b''" 0 0 init_proc]
    by (simp add: poll_loop_0 poll_body_cache d0)
  have dk: "2 < length (poll_points then_down_world demo_ks demo_config ''kaspa:pub0a0b'' 1
        (poll_loop then_down_world demo_ks demo_config ''kaspa:pub0a0b'' 0 1 init_proc))"
    using d1 by (simp add: poll_points_def Let_def)
  have g: "GetBlockTemplate demo_world 2 demo_ks ''kaspa:pub0a0b'' = Inr ''T1''"
    by (simp add: demo_get)
  have j: "jsonMarshal demo_world ''T1'' = Inr ''json:T1''"
    by (simp add: demo_world_def)
  have p: "redisPublish demo_world 2 ''templates'' ''json:T1'' = Some (Err ''bus down'')"
    by (simp add: demo_world_def)
  have c: "RedisChannel demo_config = ''templates''"
    by (simp add: demo_config_def)
  have k0: "0 < length (poll_points demo_world demo_ks demo_config ''kaspa:pub0a0b'' 2
        (poll_loop demo_world demo_ks demo_config ''kaspa:pub0a0b'' 0 2 init_proc))"
    by (rule poll_points_length)
  have k3: "3 < length (poll_points demo_world demo_ks demo_config ''kaspa:pub0a0b'' 2
        (poll_loop demo_world demo_ks demo_config ''kaspa:pub0a0b'' 0 2 init_proc))"
    by (simp add: poll_points_def g j p c Let_def)
  have m: "map currentTemplate
        (poll_points demo_world demo_ks demo_config ''kaspa:pub0a0b'' 2
          (poll_loop demo_world demo_ks demo_config ''kaspa:pub0a0b'' 0 2 init_proc))
       = [None, Some ''T1'', Some ''T1'', Some ''T1'', Some ''T1'', Some ''T1'']"
    by (simp add: poll_points_def g j p c demo_two_failures emit_def Let_def)
  have l2: "last_fetched demo_world demo_ks ''kaspa:pub0a0b'' 2 = None"
    by (simp add: last_fetched_def fetched_def demo_get upt_rec)
  have l3: "last_fetched demo_world demo_ks ''kaspa:pub0a0b'' 3 = Some ''T1''"
    by (simp add: last_fetched_def fetched_def demo_get upt_rec)
  have s3: "Suc 2 = (3::nat)" by simp
  have a0: "currentTemplate
      (poll_points demo_world demo_ks demo_config ''kaspa:pub0a0b'' 2
        (poll_loop demo_world demo_ks demo_config ''kaspa:pub0a0b'' 0 2 init_proc) ! 0) = None"
    using cache_at_every_point [OF h k0] l2 by simp
  have a3: "currentTemplate
      (poll_points demo_world demo_ks demo_config ''kaspa:pub0a0b'' 2
        (poll_loop demo_world demo_ks demo_config ''kaspa:pub0a0b'' 0 2 init_proc) ! 3)
      = Some ''T1''"
    using cache_at_every_point [OF h k3] l3 by (simp add: s3)
  have b: "currentTemplate
      (poll_loop demo_world demo_ks demo_config ''kaspa:pub0a0b'' 0 3 init_proc) = Some ''T1''"
    using cache_at_every_point [OF h k3] l3 by (simp add: s3)
  have e: "currentTemplate
      (poll_points then_down_world demo_ks demo_config ''kaspa:pub0a0b'' 1
        (poll_loop then_down_world demo_ks demo_config ''kaspa:pub0a0b'' 0 1 init_proc) ! 2)
      = currentTemplate
          (poll_loop then_down_world demo_ks demo_config ''kaspa:pub0a0b'' 0 1 init_proc)"
    using cache_at_every_point [OF h dk] d1 by blast
  from h m l2 l3 a0 a3 b d1 dc e show ?thesis
    by simp
qed

text \<open>
  C2. In an iteration whose fetch succeeds with template \<open>t\<close>, the write of \<open>t\<close> to the
  cache is the first thing that follows the fetch: the calls of the JSON encoder and of
  \<open>Publish\<close> come after it, and nothing after it writes the cache again. So the cache
  holds \<open>t\<close> at the end of the iteration whatever the encoder and the bus answered.
\<close>

theorem cache_written_before_publish:
  assumes "GetBlockTemplate w i ks a = Inr t"
  shows "currentTemplate (poll_body w ks cfg a i s) = Some t
     \<and> (\<exists>post. new_events s (poll_body w ks cfg a i s)
            = CallGetBlockTemplate a ''Katpool'' # StoreTemplate t # post
          \<and> list_ex is_publishing post \<and> \<not> list_ex is_store post)"
  using assms
  by (simp add: poll_body_cache new_events_poll_body split: sum.splits option.splits)

theorem cache_written_before_publish_witness:
  "GetBlockTemplate demo_world 2 demo_ks ''kaspa:pub0a0b'' = Inr ''T1''
   \<and> redisPublish demo_world 2 ''templates'' ''json:T1'' = Some (Err ''bus down'')
   \<and> currentTemplate (poll_body demo_world demo_ks demo_config ''kaspa:pub0a0b'' 2 init_proc)
       = Some ''T1''
   \<and> new_events init_proc
        (poll_body demo_world demo_ks demo_config ''kaspa:pub0a0b'' 2 init_proc)
       = [CallGetBlockTemplate ''kaspa:pub0a0b'' ''Katpool'', StoreTemplate ''T1'',
          CallMarshal ''T1'', CallPublish ''templates'' ''json:T1'',
          LogPrintf ''error publishing to Redis: %v'' [ArgErr (Err ''bus down'')],
          Sleep (blockWaitTime demo_ks)]"
proof -
  have h: "GetBlockTemplate demo_world 2 demo_ks ''kaspa:pub0a0b'' = Inr ''T1''"
    by (simp add: demo_get)
  have p: "redisPublish demo_world 2 ''templates'' ''json:T1'' = Some (Err ''bus down'')"
    by (simp add: demo_world_def)
  have m: "jsonMarshal demo_world ''T1'' = Inr ''json:T1''"
    by (simp add: demo_world_def)
  have c: "RedisChannel demo_config = ''templates''"
    by (simp add: demo_config_def)
  show ?thesis
    using cache_written_before_publish [OF h, where cfg = demo_config and s = init_proc] h p
    by (simp add: new_events_poll_body m c)
qed

text \<open>A run of failed fetches: each failed iteration logs the error and sleeps.\<close>

lemma poll_loop_failures:
  assumes "\<forall>i<N. GetBlockTemplate w (j + i) ks a = Inl (es i)"
  shows "trace (poll_loop w ks cfg a j N s) =
       trace s @ concat (map (\<lambda>i. [CallGetBlockTemplate a ''Katpool'',
                                    LogPrintf ''error fetching block template: %v'' [ArgErr (es i)],
                                    Sleep (blockWaitTime ks)]) [0..<N])
     \<and> currentTemplate (poll_loop w ks cfg a j N s) = currentTemplate s"
  using assms
proof (induction N)
  case 0
  show ?case by (simp add: poll_loop_0)
next
  case (Suc N)
  from Suc.prems have fails: "\<forall>i<N. GetBlockTemplate w (j + i) ks a = Inl (es i)"
    and failed: "GetBlockTemplate w (j + N) ks a = Inl (es N)"
    by simp_all
  from Suc.IH [OF fails] failed show ?case
    by (simp add: poll_loop_Suc poll_body_trace poll_body_cache)
qed

text \<open>
  C3. When \<open>GetBlockTemplate\<close> fails in \<open>N\<close> consecutive iterations (numbers \<open>j\<close> to
  \<open>j + N - 1\<close>) and succeeds with \<open>t\<close> in the next one, the loop goes through exactly
  \<open>N\<close> failed iterations, each of them a call, a log line and a sleep of the configured
  \<open>blockWaitTime\<close>, during which the cache is not touched; the iteration after them
  fetches and stores \<open>t\<close>. This holds for every \<open>N\<close>: there is no bound on the number
  of attempts, and every pause has the same length.
\<close>

theorem retry_until_success:
  assumes "\<forall>i<N. GetBlockTemplate w (j + i) ks a = Inl (es i)"
    and "GetBlockTemplate w (j + N) ks a = Inr t"
  shows "new_events s (poll_loop w ks cfg a j N s) =
       concat (map (\<lambda>i. [CallGetBlockTemplate a ''Katpool'',
                          LogPrintf ''error fetching block template: %v'' [ArgErr (es i)],
                          Sleep (blockWaitTime ks)]) [0..<N])
     \<and> currentTemplate (poll_loop w ks cfg a j N s) = currentTemplate s
     \<and> (\<exists>post. new_events (poll_loop w ks cfg a j N s) (poll_loop w ks cfg a j (Suc N) s)
            = CallGetBlockTemplate a ''Katpool'' # StoreTemplate t # post)
     \<and> currentTemplate (poll_loop w ks cfg a j (Suc N) s) = Some t"
proof -
  note fl = poll_loop_failures [OF assms(1), of cfg s]
  have "new_events s (poll_loop w ks cfg a j N s) =
       concat (map (\<lambda>i. [CallGetBlockTemplate a ''Katpool'',
                          LogPrintf ''error fetching block template: %v'' [ArgErr (es i)],
                          Sleep (blockWaitTime ks)]) [0..<N])"
    by (rule new_events_append) (simp add: fl)
  moreover have "currentTemplate (poll_loop w ks cfg a j N s) = currentTemplate s"
    by (simp add: fl)
  moreover have "\<exists>post. new_events (poll_loop w ks cfg a j N s)
        (poll_loop w ks cfg a j (Suc N) s)
      = CallGetBlockTemplate a ''Katpool'' # StoreTemplate t # post"
    by (simp add: poll_loop_Suc new_events_poll_body assms(2))
  moreover have "currentTemplate (poll_loop w ks cfg a j (Suc N) s) = Some t"
    by (simp add: poll_loop_Suc poll_body_cache assms(2))
  ultimately show ?thesis by blast
qed

theorem retry_until_success_witness:
  "GetBlockTemplate demo_world 0 demo_ks ''kaspa:pub0a0b''
       = Inl (Wrap (Err ''node down'') ''failed fetching new block template from kaspa'')
   \<and> GetBlockTemplate demo_world 1 demo_ks ''kaspa:pub0a0b''
       = Inl (Wrap (Err ''node down'') ''failed fetching new block template from kaspa'')
   \<and> GetBlockTemplate demo_world 2 demo_ks ''kaspa:pub0a0b'' = Inr ''T1''
   \<and> new_events init_proc
        (poll_loop demo_world demo_ks demo_config ''kaspa:pub0a0b'' 0 2 init_proc)
       = [CallGetBlockTemplate ''kaspa:pub0a0b'' ''Katpool'',
          LogPrintf ''error fetching block template: %v''
            [ArgErr (Wrap (Err ''node down'') ''failed fetching new block template from kaspa'')],
          Sleep (blockWaitTime demo_ks),
          CallGetBlockTemplate ''kaspa:pub0a0b'' ''Katpool'',
          LogPrintf ''error fetching block template: %v''
            [ArgErr (Wrap (Err ''node down'') ''failed fetching new block template from kaspa'')],
          Sleep (blockWaitTime demo_ks)]
   \<and> currentTemplate (poll_loop demo_world demo_ks demo_config ''kaspa:pub0a0b'' 0 2 init_proc)
       = None
   \<and> currentTemplate
        (poll_loop demo_world demo_ks demo_config ''kaspa:pub0a0b'' 0 (Suc 2) init_proc)
       = Some ''T1''"
proof -
  have f: "\<forall>i<2. GetBlockTemplate demo_world (0 + i) demo_ks ''kaspa:pub0a0b''
       = Inl ((\<lambda>i. Wrap (Err ''node down'') ''failed fetching new block template from kaspa'') i)"
    by (simp add: demo_get)
  have g: "GetBlockTemplate demo_world (0 + 2) demo_ks ''kaspa:pub0a0b'' = Inr ''T1''"
    by (simp add: demo_get)
  have u: "[0..<2] = [0, Suc 0]"
    by (simp add: upt_rec)
  show ?thesis
    using retry_until_success [OF f g, where cfg = demo_config and s = init_proc] g
    by (simp add: u init_proc_def demo_get)
qed

text \<open>
  Of the four ways through the body, three end with the sleep; the one in which the JSON
  encoder fails ends with its log line.
\<close>

lemma poll_body_ends_with_sleep:
  assumes "\<forall>t e. GetBlockTemplate w i ks a = Inr t \<longrightarrow> jsonMarshal w t \<noteq> Inl e"
  shows "last (trace (poll_body w ks cfg a i s)) = Sleep (blockWaitTime ks)"
  using assms by (auto simp add: poll_body_trace split: sum.splits option.splits)

lemma poll_body_marshal_error:
  assumes "GetBlockTemplate w i ks a = Inr t" and "jsonMarshal w t = Inl e"
  shows "new_events s (poll_body w ks cfg a i s) =
       [CallGetBlockTemplate a ''Katpool'', StoreTemplate t, CallMarshal t,
        LogPrintf ''error serializing template to JSON: %v'' [ArgErr e]]"
  using assms by (simp add: new_events_poll_body)

text \<open>
  C4 (the code departs from the claim). An iteration ends with a sleep of
  \<open>blockWaitTime\<close> when the fetch fails, when the publish fails and when everything
  succeeds. When the JSON encoder fails, the \<open>continue\<close> of line 172 starts the next
  iteration at once: in the scripted world whose encoder fails, iteration 2 fetches
  \<open>T1\<close>, stores it, logs the encoder's error and ends, without any sleep.
\<close>

theorem marshal_failure_skips_sleep:
  "new_events init_proc
      (poll_body marshal_error_world demo_ks demo_config ''kaspa:pub0a0b'' 2 init_proc)
     = [CallGetBlockTemplate ''kaspa:pub0a0b'' ''Katpool'', StoreTemplate ''T1'',
        CallMarshal ''T1'',
        LogPrintf ''error serializing template to JSON: %v'' [ArgErr (Err ''unsupported value'')]]
   \<and> \<not> list_ex is_sleep
        (new_events init_proc
          (poll_body marshal_error_world demo_ks demo_config ''kaspa:pub0a0b'' 2 init_proc))"
proof -
  have g: "GetBlockTemplate marshal_error_world 2 demo_ks ''kaspa:pub0a0b'' = Inr ''T1''"
    by (simp add: GetBlockTemplate_def marshal_error_world_def demo_world_def)
  have m: "jsonMarshal marshal_error_world ''T1'' = Inl (Err ''unsupported value'')"
    by (simp add: marshal_error_world_def)
  show ?thesis
    by (simp add: poll_body_marshal_error [OF g m])
qed

lemma published_append: "published (xs @ ys) = published xs @ published ys"
  by (induction xs rule: published.induct) simp_all

text \<open>
  C7. The node answers \<open>T1\<close> to the first fetch and \<open>T2\<close> to the second, and the
  encoder turns them into \<open>j1\<close> and \<open>j2\<close>. After two iterations the cache holds
  \<open>T2\<close>, and what was handed to \<open>Publish\<close> is \<open>j1\<close> and then \<open>j2\<close>, on the
  configured channel, whatever the bus answered.
\<close>

theorem two_cycles:
  assumes "GetBlockTemplate w 0 ks a = Inr T1" and "GetBlockTemplate w 1 ks a = Inr T2"
    and "jsonMarshal w T1 = Inr j1" and "jsonMarshal w T2 = Inr j2"
  shows "currentTemplate (poll_loop w ks cfg a 0 2 s) = Some T2
     \<and> published (new_events s (poll_loop w ks cfg a 0 2 s))
         = [(RedisChannel cfg, j1), (RedisChannel cfg, j2)]"
proof -
  have two: "(2::nat) = Suc (Suc 0)" by simp
  have g2: "GetBlockTemplate w (Suc 0) ks a = Inr T2"
    using assms(2) by simp
  have c: "currentTemplate (poll_loop w ks cfg a 0 2 s) = Some T2"
    unfolding two by (simp add: poll_loop_Suc poll_loop_0 poll_body_cache g2)
  have e1: "new_events s (poll_loop w ks cfg a 0 (Suc 0) s) =
      [CallGetBlockTemplate a ''Katpool'', StoreTemplate T1, CallMarshal T1,
       CallPublish (RedisChannel cfg) j1,
       (case redisPublish w 0 (RedisChannel cfg) j1 of
          Some err \<Rightarrow> LogPrintf ''error publishing to Redis: %v'' [ArgErr err]
        | None \<Rightarrow> LogPrintf ''template published to Redis channel %s'' [ArgStr (RedisChannel cfg)]),
       Sleep (blockWaitTime ks)]"
    by (simp add: poll_loop_Suc poll_loop_0 new_events_poll_body assms)
  have e2: "new_events (poll_loop w ks cfg a 0 (Suc 0) s) (poll_loop w ks cfg a 0 (Suc (Suc 0)) s) =
      [CallGetBlockTemplate a ''Katpool'', StoreTemplate T2, CallMarshal T2,
       CallPublish (RedisChannel cfg) j2,
       (case redisPublish w (Suc 0) (RedisChannel cfg) j2 of
          Some err \<Rightarrow> LogPrintf ''error publishing to Redis: %v'' [ArgErr err]
        | None \<Rightarrow> LogPrintf ''template published to Redis channel %s'' [ArgStr (RedisChannel cfg)]),
       Sleep (blockWaitTime ks)]"
    by (simp add: poll_loop_Suc [of w ks cfg a 0 "Suc 0"] new_events_poll_body g2 assms(4))
  have t: "trace (poll_loop w ks cfg a 0 2 s) =
      trace s @ new_events s (poll_loop w ks cfg a 0 (Suc 0) s) @
        new_events (poll_loop w ks cfg a 0 (Suc 0) s) (poll_loop w ks cfg a 0 (Suc (Suc 0)) s)"
    unfolding two by (rule trace_poll_loop_Suc)
  have "published (new_events s (poll_loop w ks cfg a 0 2 s))
         = [(RedisChannel cfg, j1), (RedisChannel cfg, j2)]"
    unfolding new_events_append [OF t] published_append e1 e2
    by (simp split: option.splits)
  with c show ?thesis by simp
qed

theorem two_cycles_witness:
  "GetBlockTemplate two_templates_world 0 demo_ks ''kaspa:pub0a0b'' = Inr ''T1''
   \<and> GetBlockTemplate two_templates_world 1 demo_ks ''kaspa:pub0a0b'' = Inr ''T2''
   \<and> jsonMarshal two_templates_world ''T1'' = Inr ''json:T1''
   \<and> jsonMarshal two_templates_world ''T2'' = Inr ''json:T2''
   \<and> currentTemplate
        (poll_loop two_templates_world demo_ks demo_config ''kaspa:pub0a0b'' 0 2 init_proc)
       = Some ''T2''
   \<and> published (new_events init_proc
        (poll_loop two_templates_world demo_ks demo_config ''kaspa:pub0a0b'' 0 2 init_proc))
       = [(''templates'', ''json:T1''), (''templates'', ''json:T2'')]"
proof -
  have g1: "GetBlockTemplate two_templates_world 0 demo_ks ''kaspa:pub0a0b'' = Inr ''T1''"
    by (simp add: GetBlockTemplate_def two_templates_world_def)
  have g2: "GetBlockTemplate two_templates_world 1 demo_ks ''kaspa:pub0a0b'' = Inr ''T2''"
    by (simp add: GetBlockTemplate_def two_templates_world_def)
  have m1: "jsonMarshal two_templates_world ''T1'' = Inr ''json:T1''"
    by (simp add: two_templates_world_def demo_world_def)
  have m2: "jsonMarshal two_templates_world ''T2'' = Inr ''json:T2''"
    by (simp add: two_templates_world_def demo_world_def)
  show ?thesis
    using two_cycles [OF g1 g2 m1 m2, where cfg = demo_config and s = init_proc] g1 g2 m1 m2
    by (simp add: demo_config_def)
qed

section \<open>The status loop\<close>

text \<open>
  C8 as stated fails: with a template in the cache, a tick of the status loop prints
  nothing, since the formatted print of lines 193--218 is commented out.
\<close>

theorem status_tick_populated_prints_nothing:
  "\<not> list_ex is_output
       (new_events \<lparr>currentTemplate = Some ''T1'', trace = []\<rparr>
          (status_tick \<lparr>currentTemplate = Some ''T1'', trace = []\<rparr>))"
  by (simp add: status_tick_def emit_def new_events_def Let_def)

text \<open>
  C8, amended. A tick of the status loop sleeps five seconds and reads the cache. When
  the cache is empty it prints \<open>No block template fetched yet.\<close>; when the cache is
  populated it prints nothing. It leaves the cache as it was, and it neither fetches nor
  encodes nor publishes.
\<close>

theorem status_tick_effect:
  "currentTemplate (status_tick s) = currentTemplate s
   \<and> new_events s (status_tick s) =
       Sleep (5 * Second) #
         (if currentTemplate s = None
          then [FmtPrintln [ArgStr ''No block template fetched yet.'']] else [])
   \<and> \<not> list_ex is_store (new_events s (status_tick s))
   \<and> \<not> list_ex is_fetch (new_events s (status_tick s))
   \<and> \<not> list_ex is_publishing (new_events s (status_tick s))"
  by (simp add: status_tick_def emit_def new_events_def Let_def)

section \<open>Startup\<close>

lemmas atoi_defs = Atoi_def ParseInt_def ParseUint_def isDigit_def digitVal_def maxUint64_def

lemma parseDigits_digits: "parseDigits n ds = Inr m \<Longrightarrow> list_all isDigit ds"
  by (induction n ds rule: parseDigits.induct) (auto split: if_splits)

lemma ParseInt_numeric: "ParseInt s = Inr n \<Longrightarrow> numeric s"
  by (cases s)
    (auto simp add: ParseInt_def ParseUint_def numeric_def Let_def
      split: sum.splits if_splits dest: parseDigits_digits)

lemma Atoi_numeric: "Atoi s = Inr n \<Longrightarrow> numeric s"
  by (auto simp add: Atoi_def split: sum.splits dest: ParseInt_numeric)

lemma Atoi_not_numeric: "\<not> numeric s \<Longrightarrow> \<exists>e. Atoi s = Inl e"
  by (cases "Atoi s") (auto dest: Atoi_numeric)

lemma demo_address:
  "fetchKaspaAccountFromPrivateKey demo_world ''mainnet'' ''0a0b'' = Inr ''kaspa:pub0a0b''"
  by (simp add: fetchKaspaAccountFromPrivateKey_def demo_world_def)

text \<open>
  C10. \<open>fetchKaspaAccountFromPrivateKey\<close> behaves as if the address library were always
  handed the testnet prefix when the network is \<open>testnet-10\<close> or \<open>testnet-11\<close>, and as
  if it were always handed the mainnet prefix \<open>Bech32PrefixKaspa\<close> for every other
  network string.
\<close>

theorem address_prefix_rule:
  "(network = ''testnet-10'' \<or> network = ''testnet-11'' \<longrightarrow>
      fetchKaspaAccountFromPrivateKey w network key
        = fetchKaspaAccountFromPrivateKey (with_prefix Bech32PrefixKaspaTest w) network key)
   \<and> (network \<noteq> ''testnet-10'' \<and> network \<noteq> ''testnet-11'' \<longrightarrow>
      fetchKaspaAccountFromPrivateKey w network key
        = fetchKaspaAccountFromPrivateKey (with_prefix Bech32PrefixKaspa w) network key)"
  by (simp add: fetchKaspaAccountFromPrivateKey_def with_prefix_def Let_def split: sum.splits)

theorem address_prefix_rule_witness:
  "fetchKaspaAccountFromPrivateKey demo_world ''testnet-10'' ''0a0b'' = Inr ''kaspatest:pub0a0b''
   \<and> fetchKaspaAccountFromPrivateKey (with_prefix Bech32PrefixKaspaTest demo_world)
        ''testnet-10'' ''0a0b'' = Inr ''kaspatest:pub0a0b''
   \<and> fetchKaspaAccountFromPrivateKey demo_world ''testnet-11'' ''0a0b'' = Inr ''kaspatest:pub0a0b''
   \<and> fetchKaspaAccountFromPrivateKey demo_world ''testnet-12'' ''0a0b'' = Inr ''kaspa:pub0a0b''
   \<and> fetchKaspaAccountFromPrivateKey (with_prefix Bech32PrefixKaspa demo_world)
        ''testnet-12'' ''0a0b'' = Inr ''kaspa:pub0a0b''
   \<and> fetchKaspaAccountFromPrivateKey demo_world ''devnet'' ''0a0b'' = Inr ''kaspa:pub0a0b''
   \<and> fetchKaspaAccountFromPrivateKey demo_world ''simnet'' ''0a0b'' = Inr ''kaspa:pub0a0b''
   \<and> fetchKaspaAccountFromPrivateKey demo_world ''mainnet'' ''0a0b'' = Inr ''kaspa:pub0a0b''"
  using address_prefix_rule [of "''testnet-10''" demo_world "''0a0b''"]
    address_prefix_rule [of "''testnet-12''" demo_world "''0a0b''"]
  by (simp add: fetchKaspaAccountFromPrivateKey_def with_prefix_def demo_world_def)

text \<open>What \<open>main\<close> does in the scripted worlds.\<close>

lemma main_demo_world:
  "main demo_world =
     ([LogPrintln [ArgStr ''Config : %v'', ArgConfig demo_config],
       LogPrintln [ArgStr ''Address : '', ArgStr ''kaspa:pub0a0b''],
       DialRPC ''127.0.0.1:16110'', PingRedis ''127.0.0.1:6379''],
      Serving \<lparr>address = ''127.0.0.1:16110'', blockWaitTime = 5 * Second,
                kaspad = RPCClient ''127.0.0.1:16110'', connected = True\<rparr>
        demo_config ''kaspa:pub0a0b'')"
  by (simp add: main_def demo_world_def demo_config_def fetchKaspaAccountFromPrivateKey_def
      atoi_defs index0_def NewKaspaAPI_def Let_def)

text \<open>
  C5 (the code departs from the claim). A failed \<open>godotenv.Load\<close>, address derivation,
  client construction or Redis ping ends in \<open>log.Fatalf\<close>, hence with status 1. A
  missing \<open>config.json\<close>, a \<open>config.json\<close> that does not decode and a wait time that
  does not parse end in a print and a \<open>return\<close> from \<open>main\<close>: the message is there,
  the exit status is 0.
\<close>

theorem config_errors_exit_zero:
  "main no_config_world =
     ([FmtPrintf (''Error opening file: %v'' @ [CHR 0x0A])
         [ArgErr (Err ''no such file or directory'')]], Exit 0)
   \<and> exit_status (snd (main no_config_world)) = Some 0
   \<and> main bad_json_world =
     ([FmtPrintf (''Error decoding JSON: %v'' @ [CHR 0x0A]) [ArgErr (Err ''invalid character'')]],
      Exit 0)
   \<and> exit_status (snd (main bad_json_world)) = Some 0
   \<and> snd (main (wait_world ''abc'')) = Exit 0
   \<and> last (fst (main (wait_world ''abc''))) =
       FmtPrintln [ArgStr ''Error: Invalid BlockWaitTimeSec : '',
                   ArgErr (NumError ''Atoi'' ''abc'' ErrSyntax)]"
  by (simp add: main_def no_config_world_def bad_json_world_def wait_world_def demo_world_def
      demo_config_def fetchKaspaAccountFromPrivateKey_def atoi_defs exit_status_def Let_def)

text \<open>The startup failures that do end with status 1.\<close>

lemma fatal_errors_exit_one:
  "(godotenvLoad w ''../.env'' = Some e \<longrightarrow> snd (main w) = Exit 1)
   \<and> (godotenvLoad w ''../.env'' = None \<and> osOpen w ''./config.json'' = Inr file
        \<and> jsonDecode w file = Inr config
        \<and> fetchKaspaAccountFromPrivateKey w (Network config) (osGetenv w ''TREASURY_PRIVATE_KEY'')
            = Inl e
      \<longrightarrow> snd (main w) = Exit 1)
   \<and> (godotenvLoad w ''../.env'' = None \<and> osOpen w ''./config.json'' = Inr file
        \<and> jsonDecode w file = Inr config
        \<and> fetchKaspaAccountFromPrivateKey w (Network config) (osGetenv w ''TREASURY_PRIVATE_KEY'')
            = Inr a
        \<and> Atoi (BlockWaitTimeSec config) = Inr num \<and> RPCServer config = server # rest
        \<and> (rpcclientNewRPCClient w server = Inl e
            \<or> redisPing w (RedisAddress config) = Some e)
      \<longrightarrow> snd (main w) = Exit 1)"
  by (auto simp add: main_def index0_def NewKaspaAPI_def Let_def split: sum.splits option.splits)

text \<open>
  C6 as stated fails: \<open>-5\<close> and \<open>0\<close> are not positive, and startup accepts both; the
  loops are started with a wait of minus five seconds and of zero.
\<close>

theorem nonpositive_wait_time_accepted:
  "(\<exists>ks cfg a. snd (main (wait_world ''-5'')) = Serving ks cfg a
       \<and> sint (blockWaitTime ks) = - 5000000000)
   \<and> (\<exists>ks cfg a. snd (main (wait_world ''0'')) = Serving ks cfg a \<and> blockWaitTime ks = 0)"
  by (simp add: main_def wait_world_def demo_world_def demo_config_def
      fetchKaspaAccountFromPrivateKey_def atoi_defs index0_def NewKaspaAPI_def Second_def Let_def)

text \<open>
  C6, amended. Startup goes on to the network (the construction of the RPC client, the
  Redis ping) and to the loops only when \<open>strconv.Atoi\<close> parses
  \<open>block_wait_time_seconds\<close>; the parsed number, of either sign or zero, becomes the
  wait. When the value is not numeric, startup ends before any network connection is
  attempted. When the value parses and the steps before it succeeded, startup goes on to
  contact the first node, whatever the sign of the number.
\<close>

theorem wait_time_validation:
  assumes "osOpen w ''./config.json'' = Inr file" and "jsonDecode w file = Inr config"
  shows "(\<not> numeric (BlockWaitTimeSec config) \<longrightarrow>
            \<not> list_ex is_network (fst (main w)) \<and> (\<exists>n. snd (main w) = Exit n))
     \<and> (list_ex is_network (fst (main w)) \<longrightarrow>
            (\<exists>num. Atoi (BlockWaitTimeSec config) = Inr num))
     \<and> (\<forall>ks cfg a. snd (main w) = Serving ks cfg a \<longrightarrow>
            (\<exists>num. Atoi (BlockWaitTimeSec config) = Inr num
               \<and> blockWaitTime ks = word_of_int num * Second))
     \<and> (\<forall>a num server rest.
            godotenvLoad w ''../.env'' = None
            \<and> fetchKaspaAccountFromPrivateKey w (Network config)
                 (osGetenv w ''TREASURY_PRIVATE_KEY'') = Inr a
            \<and> Atoi (BlockWaitTimeSec config) = Inr num
            \<and> RPCServer config = server # rest
          \<longrightarrow> list_ex is_network (fst (main w)))"
proof -
  have rejected: "\<not> list_ex is_network (fst (main w)) \<and> (\<exists>n. snd (main w) = Exit n)"
    if "Atoi (BlockWaitTimeSec config) = Inl e" for e
    using assms that
    by (simp add: main_def Let_def split: sum.splits option.splits)
  have c1: "\<not> numeric (BlockWaitTimeSec config) \<longrightarrow>
      \<not> list_ex is_network (fst (main w)) \<and> (\<exists>n. snd (main w) = Exit n)"
    using rejected Atoi_not_numeric by blast
  have c2: "list_ex is_network (fst (main w)) \<longrightarrow>
      (\<exists>num. Atoi (BlockWaitTimeSec config) = Inr num)"
    using rejected by (cases "Atoi (BlockWaitTimeSec config)") auto
  have c3: "\<forall>ks cfg a. snd (main w) = Serving ks cfg a \<longrightarrow>
      (\<exists>num. Atoi (BlockWaitTimeSec config) = Inr num
         \<and> blockWaitTime ks = word_of_int num * Second)"
    using assms
    by (auto simp add: main_def Let_def index0_def NewKaspaAPI_def
        split: sum.splits option.splits list.splits)
  have c4: "\<forall>a num server rest.
      godotenvLoad w ''../.env'' = None
      \<and> fetchKaspaAccountFromPrivateKey w (Network config)
           (osGetenv w ''TREASURY_PRIVATE_KEY'') = Inr a
      \<and> Atoi (BlockWaitTimeSec config) = Inr num
      \<and> RPCServer config = server # rest
    \<longrightarrow> list_ex is_network (fst (main w))"
    using assms
    by (auto simp add: main_def Let_def index0_def NewKaspaAPI_def
        split: sum.splits option.splits)
  from c1 c2 c3 c4 show ?thesis by blast
qed

theorem wait_time_validation_witness:
  "osOpen (wait_world ''abc'') ''./config.json'' = Inr ''config''
   \<and> jsonDecode (wait_world ''abc'') ''config'' = Inr (demo_config\<lparr>BlockWaitTimeSec := ''abc''\<rparr>)
   \<and> \<not> numeric ''abc''
   \<and> \<not> list_ex is_network (fst (main (wait_world ''abc'')))
   \<and> snd (main (wait_world ''abc'')) = Exit 0
   \<and> Atoi ''-5'' = Inr (- 5)
   \<and> list_ex is_network (fst (main (wait_world ''-5'')))"
proof -
  have o: "osOpen (wait_world v) ''./config.json'' = Inr ''config''" for v
    by (simp add: wait_world_def demo_world_def)
  have d: "jsonDecode (wait_world v) ''config'' = Inr (demo_config\<lparr>BlockWaitTimeSec := v\<rparr>)" for v
    by (simp add: wait_world_def)
  have n: "\<not> numeric ''abc''"
    by (simp add: numeric_def isDigit_def)
  have a: "Atoi ''-5'' = Inr (- 5)"
    by (simp add: atoi_defs)
  have e: "snd (main (wait_world ''abc'')) = Exit 0"
    by (simp add: main_def wait_world_def demo_world_def demo_config_def
        fetchKaspaAccountFromPrivateKey_def atoi_defs Let_def)
  have g: "godotenvLoad (wait_world ''-5'') ''../.env'' = None"
    by (simp add: wait_world_def demo_world_def)
  have f: "fetchKaspaAccountFromPrivateKey (wait_world ''-5'')
      (Network (demo_config\<lparr>BlockWaitTimeSec := ''-5''\<rparr>))
      (osGetenv (wait_world ''-5'') ''TREASURY_PRIVATE_KEY'') = Inr ''kaspa:pub0a0b''"
    by (simp add: fetchKaspaAccountFromPrivateKey_def wait_world_def demo_world_def
        demo_config_def)
  have r: "RPCServer (demo_config\<lparr>BlockWaitTimeSec := ''-5''\<rparr>) = [''127.0.0.1:16110'']"
    by (simp add: demo_config_def)
  show ?thesis
    using wait_time_validation [OF o d, of "''abc''"] wait_time_validation [OF o d, of "''-5''"]
      o d n a e g f r
    by simp
qed

text \<open>
  C9 as stated fails: a configuration with an empty node list and a wait time that does
  not parse never reaches the access to the first node. Startup prints the message about
  the wait time and ends with status 0.
\<close>

theorem empty_node_list_without_panic:
  "jsonDecode (no_node_world ''abc'') ''config''
       = Inr (demo_config\<lparr>RPCServer := [], BlockWaitTimeSec := ''abc''\<rparr>)
   \<and> RPCServer (demo_config\<lparr>RPCServer := [], BlockWaitTimeSec := ''abc''\<rparr>) = []
   \<and> snd (main (no_node_world ''abc'')) = Exit 0
   \<and> last (fst (main (no_node_world ''abc''))) =
       FmtPrintln [ArgStr ''Error: Invalid BlockWaitTimeSec : '',
                   ArgErr (NumError ''Atoi'' ''abc'' ErrSyntax)]"
  by (simp add: main_def no_node_world_def demo_world_def demo_config_def
      fetchKaspaAccountFromPrivateKey_def atoi_defs Let_def)

text \<open>
  C9, amended. When the steps of startup that come before line 132 succeed (the
  \<open>.env\<close> file loads, \<open>config.json\<close> opens and decodes, the address is derived, the wait
  time parses) and the node list is empty, startup ends in the run-time panic of
  \<open>config.RPCServer[0]\<close>, index 0 out of range for length 0: no error message has been
  printed and no connection has been attempted. With a node list that is not empty startup
  never panics.
\<close>

theorem empty_node_list_panics:
  assumes "godotenvLoad w ''../.env'' = None"
    and "osOpen w ''./config.json'' = Inr file"
    and "jsonDecode w file = Inr config"
    and "fetchKaspaAccountFromPrivateKey w (Network config)
           (osGetenv w ''TREASURY_PRIVATE_KEY'') = Inr a"
    and "Atoi (BlockWaitTimeSec config) = Inr num"
  shows "(RPCServer config = [] \<longrightarrow>
            snd (main w) = Panic (IndexOutOfRange 0 0)
            \<and> \<not> list_ex is_error_message (fst (main w))
            \<and> \<not> list_ex is_network (fst (main w)))
     \<and> (RPCServer config \<noteq> [] \<longrightarrow> (\<forall>p. snd (main w) \<noteq> Panic p))"
  using assms
  by (auto simp add: main_def Let_def index0_def NewKaspaAPI_def
      split: sum.splits option.splits list.splits)

theorem empty_node_list_panics_witness:
  "godotenvLoad (no_node_world ''5'') ''../.env'' = None
   \<and> osOpen (no_node_world ''5'') ''./config.json'' = Inr ''config''
   \<and> jsonDecode (no_node_world ''5'') ''config''
       = Inr (demo_config\<lparr>RPCServer := [], BlockWaitTimeSec := ''5''\<rparr>)
   \<and> Atoi ''5'' = Inr 5
   \<and> RPCServer (demo_config\<lparr>RPCServer := [], BlockWaitTimeSec := ''5''\<rparr>) = []
   \<and> snd (main (no_node_world ''5'')) = Panic (IndexOutOfRange 0 0)
   \<and> \<not> list_ex is_error_message (fst (main (no_node_world ''5'')))
   \<and> \<not> list_ex is_network (fst (main (no_node_world ''5'')))"
proof -
  have g: "godotenvLoad (no_node_world ''5'') ''../.env'' = None"
    by (simp add: no_node_world_def demo_world_def)
  have o: "osOpen (no_node_world ''5'') ''./config.json'' = Inr ''config''"
    by (simp add: no_node_world_def demo_world_def)
  have d: "jsonDecode (no_node_world ''5'') ''config''
      = Inr (demo_config\<lparr>RPCServer := [], BlockWaitTimeSec := ''5''\<rparr>)"
    by (simp add: no_node_world_def)
  have f: "fetchKaspaAccountFromPrivateKey (no_node_world ''5'')
      (Network (demo_config\<lparr>RPCServer := [], BlockWaitTimeSec := ''5''\<rparr>))
      (osGetenv (no_node_world ''5'') ''TREASURY_PRIVATE_KEY'') = Inr ''kaspa:pub0a0b''"
    by (simp add: fetchKaspaAccountFromPrivateKey_def no_node_world_def demo_world_def
        demo_config_def)
  have a: "Atoi (BlockWaitTimeSec (demo_config\<lparr>RPCServer := [], BlockWaitTimeSec := ''5''\<rparr>))
      = Inr 5"
    by (simp add: atoi_defs)
  show ?thesis
    using empty_node_list_panics [OF g o d f a] g o d a
    by simp
qed

end
